theory Spec2Isabelle
  imports Complex_Main "HOL-Library.Sublist"
begin

section \<open>Python values, exceptions and arithmetic\<close>

text \<open>
  The order management core of \<^verbatim>\<open>src/OMS/binance_oms.py\<close> (class \<^verbatim>\<open>Binance\<close>) is
  embedded function by function. Every \<^verbatim>\<open>raise\<close> is a value \<open>Inl exn\<close> of the result,
  every normal return is \<open>Inr value\<close>.

  A Python float is the real number that the double holds (infinities and NaN do not
  occur). In the order path the quantity is floored to a multiple of the step size, and
  there the binary value of a decimal step decides which multiple comes out: that path
  (\<open>float_of\<close>, \<open>floordiv\<close>, \<open>round_to_step\<close>, \<open>usd_to_contracts\<close>) rounds every
  conversion and every operation to the nearest double, as Python does. The closing path
  does not floor; its products and quotients (\<open>truediv\<close>, \<open>close_quantity\<close>) are the
  exact ones, without the rounding of the last bit.
\<close>

datatype exn =
    BinanceAPIException string  \<comment> \<open>the payload is \<^verbatim>\<open>str(e)\<close>\<close>
  | ZeroDivisionError
  | ValueError string
  | OtherException string       \<comment> \<open>anything else the client library raises\<close>

text \<open>Truthiness of an optional float (\<^verbatim>\<open>if price:\<close>): \<^verbatim>\<open>None\<close> and \<^verbatim>\<open>0.0\<close> are false.\<close>

definition truthy :: "real option \<Rightarrow> bool" where
  "truthy v = (case v of None \<Rightarrow> False | Some x \<Rightarrow> x \<noteq> 0)"

text \<open>Truthiness of an optional string (\<^verbatim>\<open>if symbol:\<close>): \<^verbatim>\<open>None\<close> and \<^verbatim>\<open>''\<close> are false.\<close>

definition truthy_str :: "string option \<Rightarrow> bool" where
  "truthy_str v = (case v of None \<Rightarrow> False | Some s \<Rightarrow> s \<noteq> [])"

text \<open>
  \<^verbatim>\<open>str.upper()\<close> on ASCII text: the letters a..z (codes 97..122) move down by 32, which
  clears bit 5 of the code.
\<close>

definition upper_char :: "char \<Rightarrow> char" where
  "upper_char c =
     (if 97 \<le> (of_char c :: nat) \<and> (of_char c :: nat) \<le> 122
      then (case c of Char b0 b1 b2 b3 b4 b5 b6 b7 \<Rightarrow> Char b0 b1 b2 b3 b4 False b6 b7)
      else c)"

definition upper :: "string \<Rightarrow> string" where
  "upper s = map upper_char s"

text \<open>\<^verbatim>\<open>sub in s\<close> on strings: \<open>sub\<close> occurs as a contiguous run of \<open>s\<close>.\<close>

fun str_contains :: "string \<Rightarrow> string \<Rightarrow> bool" where
  "str_contains sub [] = (sub = [])"
| "str_contains sub (c # cs) = (prefix sub (c # cs) \<or> str_contains sub cs)"

text \<open>
  \<^verbatim>\<open>round(x)\<close> with one argument: the nearest integer, a tie going to the even neighbour.
\<close>

definition py_round :: "real \<Rightarrow> int" where
  "py_round x =
     (if x - of_int \<lfloor>x\<rfloor> = 1 / 2
      then (if even \<lfloor>x\<rfloor> then \<lfloor>x\<rfloor> else \<lfloor>x\<rfloor> + 1)
      else \<lfloor>x + 1 / 2\<rfloor>)"

text \<open>
  The nearest double of a real number, as \<^verbatim>\<open>float('0.001')\<close> and every IEEE operation
  produce it: a significand of 53 bits, so a number between \<open>2 ^ e\<close> and \<open>2 ^ (e + 1)\<close>
  becomes a multiple of \<open>2 ^ (e - 52)\<close>, a tie going to the even multiple. The exponent
  is not bounded: overflow and subnormal numbers are left out.
\<close>

definition float_of :: "real \<Rightarrow> real" where
  "float_of x =
     (if x = 0 then 0
      else of_int (py_round (x / 2 powi (\<lfloor>log 2 \<bar>x\<bar>\<rfloor> - 52))) * 2 powi (\<lfloor>log 2 \<bar>x\<bar>\<rfloor> - 52))"

text \<open>
  \<^verbatim>\<open>round(x, n)\<close> on a float: the exact value of \<open>x\<close> rounded to \<open>n\<close> decimal places (to
  a multiple of \<open>10 ^ (-n)\<close> when \<open>n\<close> is negative), ties to even, and the nearest double
  of that decimal.
\<close>

definition py_round_ndigits :: "real \<Rightarrow> int \<Rightarrow> real" where
  "py_round_ndigits x n =
     float_of
       (if 0 \<le> n then of_int (py_round (x * 10 ^ nat n)) / 10 ^ nat n
        else of_int (py_round (x / 10 ^ nat (- n))) * 10 ^ nat (- n))"

text \<open>
  \<^verbatim>\<open>math.log10(x)\<close>: a non-positive argument raises \<^verbatim>\<open>ValueError\<close>; otherwise the
  double nearest to the logarithm (the C library is taken to round correctly).
\<close>

definition math_log10 :: "real \<Rightarrow> exn + real" where
  "math_log10 x =
     (if x \<le> 0 then Inl (ValueError ''math domain error'') else Inr (float_of (log 10 x)))"

text \<open>
  \<^verbatim>\<open>a // b\<close> on floats: the floor of the quotient of the two doubles; a zero divisor
  raises. The floor is a double as it stands whenever it is below \<open>2 ^ 53\<close>; beyond
  that the nearest double stands for it.
\<close>

definition floordiv :: "real \<Rightarrow> real \<Rightarrow> exn + real" where
  "floordiv a b =
     (if b = 0 then Inl ZeroDivisionError else Inr (float_of (of_int \<lfloor>a / b\<rfloor>)))"

text \<open>\<^verbatim>\<open>a / b\<close> on floats, in the closing path: the exact quotient.\<close>

definition truediv :: "real \<Rightarrow> real \<Rightarrow> exn + real" where
  "truediv a b = (if b = 0 then Inl ZeroDivisionError else Inr (a / b))"

text \<open>\<^verbatim>\<open>a / b\<close> on floats, in the order path: the nearest double of the quotient.\<close>

definition float_truediv :: "real \<Rightarrow> real \<Rightarrow> exn + real" where
  "float_truediv a b = (if b = 0 then Inl ZeroDivisionError else Inr (float_of (a / b)))"

section \<open>Precision rounding (\<^verbatim>\<open>place_futures_order\<close>, lines 93 to 96)\<close>

text \<open>
  \<^verbatim>\<open>round(v // step * step, int(-1 * round(math.log10(step))))\<close> for two doubles \<open>v\<close>
  and \<open>step\<close>. Python evaluates the first argument first, so a zero step raises
  \<^verbatim>\<open>ZeroDivisionError\<close> before \<^verbatim>\<open>math.log10\<close> is reached.
\<close>

definition round_to_step :: "real \<Rightarrow> real \<Rightarrow> exn + real" where
  "round_to_step v step =
     (case floordiv v step of
        Inl ex \<Rightarrow> Inl ex
      | Inr k \<Rightarrow>
          (case math_log10 step of
             Inl ex \<Rightarrow> Inl ex
           | Inr l \<Rightarrow> Inr (py_round_ndigits (float_of (k * step)) (- 1 * py_round l))))"

text \<open>\<^verbatim>\<open>if price: price = round(price // tick_size * tick_size, ...)\<close>.\<close>

definition round_price :: "real option \<Rightarrow> real \<Rightarrow> exn + real option" where
  "round_price price tick_size =
     (if truthy price then
        (case round_to_step (the price) tick_size of
           Inl ex \<Rightarrow> Inl ex
         | Inr p \<Rightarrow> Inr (Some p))
      else Inr price)"

section \<open>The exchange client, the notifier and the instance state\<close>

text \<open>
  The keyword arguments of an order call. A key that is absent (or, for \<open>p_price\<close>,
  present with the value \<^verbatim>\<open>None\<close>) is \<open>None\<close>.
\<close>

record order_params =
  p_symbol :: string
  p_side :: string
  p_type :: string
  p_quantity :: real
  p_price :: "real option"
  p_timeInForce :: "string option"
  p_reduceOnly :: "bool option"

datatype call =
    CreateOrder order_params
  | FuturesCreateOrder order_params
  | FuturesExchangeInfo
  | FuturesMarkPrice string
  | FuturesAccount
  | FuturesChangeLeverage string int

text \<open>
  One entry of \<^verbatim>\<open>futures_exchange_info()['symbols']\<close>, with the two filters the code
  reads. The exchange sends them as decimal strings; \<open>stepSize\<close> and \<open>tickSize\<close> are the
  numbers those strings denote, before \<^verbatim>\<open>float(...)\<close>.
\<close>

record symbol_info =
  si_symbol :: string
  stepSize :: real
  tickSize :: real

text \<open>One entry of \<^verbatim>\<open>futures_account()['positions']\<close>, with the fields the closing code reads.\<close>

record position =
  pos_symbol :: string
  positionAmt :: real

text \<open>
  \<^verbatim>\<open>self.client\<close>, the python-binance client, is external. Each of its methods
  maps the calls made so far (oldest first) and the arguments to an answer, so an answer
  may depend on everything the exchange has been asked before; \<open>'j\<close> is the JSON payload
  of a confirmation.
\<close>

record 'j client =
  create_order :: "call list \<Rightarrow> order_params \<Rightarrow> exn + 'j"
  futures_create_order :: "call list \<Rightarrow> order_params \<Rightarrow> exn + 'j"
  futures_exchange_info :: "call list \<Rightarrow> exn + symbol_info list"
  futures_mark_price :: "call list \<Rightarrow> string \<Rightarrow> exn + real"
  futures_account :: "call list \<Rightarrow> exn + position list"
  futures_change_leverage :: "call list \<Rightarrow> string \<Rightarrow> int \<Rightarrow> exn + 'j"

text \<open>The dictionaries appended to \<^verbatim>\<open>self.failed_orders\<close> (keys in the order written).\<close>

datatype failed_order =
    FailedOrder string string real real string
      \<comment> \<open>\<^verbatim>\<open>place_order\<close>: symbol, side, size, price, error\<close>
  | FailedFuturesOrder string string real "real option" string
      \<comment> \<open>\<^verbatim>\<open>place_futures_order\<close>: symbol, side, quantity, price, error\<close>

record failed_close =
  fc_symbol :: string
  fc_error :: string

record unclosable =
  u_symbol :: string
  u_notional :: real
  u_error :: string

text \<open>
  The Telegram texts, one constructor per f-string, carrying the interpolated values.
\<close>

datatype 'j message =
    OrderPlaced 'j
  | OrderFailed string string string
  | FuturesOrderPlaced 'j
  | FuturesOrderFailed string string string
  | LeverageChanged string int 'j
  | LeverageFailed string int string
  | ClosedSmallPosition string 'j
  | ClosedPosition string 'j
  | UnclosablePosition string real
  | CloseFailed string string
  | UnclosablePositions "unclosable list"
  | FetchPositionsFailed string

text \<open>
  The instance: the two accumulators of \<^verbatim>\<open>__init__\<close> (lines 30 and 31), the messages
  handed to the notifier, and the log of the calls made on the client.
\<close>

record 'j oms =
  successful_orders :: "'j list"
  failed_orders :: "failed_order list"
  telegram_sent :: "'j message list"
  calls :: "call list"

text \<open>
  Modelled from the spec: the notifier \<^verbatim>\<open>OMS.telegram.Telegram\<close> is not among the sources.
  The spec gives it a single operation \<^verbatim>\<open>send(text)\<close> that never throws into the calling
  logic; here it records the message.
\<close>

definition send_telegram_message :: "'j message \<Rightarrow> 'j oms \<Rightarrow> 'j oms" where
  "send_telegram_message m st = st\<lparr>telegram_sent := telegram_sent st @ [m]\<rparr>"

text \<open>A call on the client: it is answered from the history, then logged.\<close>

definition gateway :: "call \<Rightarrow> (call list \<Rightarrow> exn + 'a) \<Rightarrow> 'j oms \<Rightarrow> (exn + 'a) \<times> 'j oms" where
  "gateway c respond st = (respond (calls st), st\<lparr>calls := calls st @ [c]\<rparr>)"

section \<open>\<^verbatim>\<open>place_order\<close> and \<^verbatim>\<open>iterate_orders_df\<close>\<close>

definition spot_params :: "string \<Rightarrow> string \<Rightarrow> real \<Rightarrow> real \<Rightarrow> string \<Rightarrow> order_params" where
  "spot_params symbol side size' price order_type =
     \<lparr>p_symbol = symbol, p_side = upper side, p_type = upper order_type, p_quantity = size',
      p_price = (if upper order_type = ''LIMIT'' then Some price else None),
      p_timeInForce = (if upper order_type = ''LIMIT'' then Some ''GTC'' else None),
      p_reduceOnly = None\<rparr>"

definition place_order ::
  "'j client \<Rightarrow> string \<Rightarrow> string \<Rightarrow> real \<Rightarrow> real \<Rightarrow> string \<Rightarrow> 'j oms \<Rightarrow> (exn + unit) \<times> 'j oms" where
  "place_order cl symbol side size' price order_type st =
     (let order_params = spot_params symbol side size' price order_type in
      case gateway (CreateOrder order_params) (\<lambda>h. create_order cl h order_params) st of
        (Inr order, st1) \<Rightarrow>
          (Inr (),
           send_telegram_message (OrderPlaced order)
             (st1\<lparr>successful_orders := successful_orders st1 @ [order]\<rparr>))
      | (Inl ex, st1) \<Rightarrow>
          (case ex of
             BinanceAPIException e \<Rightarrow>
               (Inr (),
                send_telegram_message (OrderFailed symbol side e)
                  (st1\<lparr>failed_orders :=
                     failed_orders st1 @ [FailedOrder symbol side size' price e]\<rparr>))
           | _ \<Rightarrow> (Inl ex, st1)))"

text \<open>A row of the orders table; \<open>Size\<close> and \<open>Price\<close> are the values after \<^verbatim>\<open>float(...)\<close>.\<close>

record order_row =
  Symbol :: string
  Side :: string
  Size :: real
  Price :: real

text \<open>The \<^verbatim>\<open>for\<close> loop of \<^verbatim>\<open>iterate_orders_df\<close>; an exception that escapes a row ends it.\<close>

fun place_rows :: "'j client \<Rightarrow> order_row list \<Rightarrow> 'j oms \<Rightarrow> (exn + unit) \<times> 'j oms" where
  "place_rows cl [] st = (Inr (), st)"
| "place_rows cl (row # rows) st =
     (case place_order cl (Symbol row) (Side row) (Size row) (Price row) ''MARKET'' st of
        (Inl ex, st1) \<Rightarrow> (Inl ex, st1)
      | (Inr u, st1) \<Rightarrow> place_rows cl rows st1)"

definition iterate_orders_df ::
  "'j client \<Rightarrow> order_row list \<Rightarrow> 'j oms \<Rightarrow> (exn + 'j list \<times> failed_order list) \<times> 'j oms" where
  "iterate_orders_df cl orders st =
     (if orders \<noteq> [] then
        (case place_rows cl orders st of
           (Inl ex, st1) \<Rightarrow> (Inl ex, st1)
         | (Inr u, st1) \<Rightarrow> (Inr (successful_orders st1, failed_orders st1), st1))
      else (Inr ([], []), st))"

text \<open>
  The request a row becomes, and the answer of the exchange to row \<open>j\<close> of a table when the
  rows before it have been sent, in order, by an instance in state \<open>st\<close>.
\<close>

definition row_params :: "order_row \<Rightarrow> order_params" where
  "row_params row = spot_params (Symbol row) (Side row) (Size row) (Price row) ''MARKET''"

definition answer_to_row :: "'j client \<Rightarrow> 'j oms \<Rightarrow> order_row list \<Rightarrow> nat \<Rightarrow> exn + 'j" where
  "answer_to_row cl st rows j =
     create_order cl (calls st @ map (CreateOrder \<circ> row_params) (take j rows))
       (row_params (rows ! j))"

section \<open>\<^verbatim>\<open>place_futures_order\<close>\<close>

text \<open>The \<^verbatim>\<open>for ... else\<close> over the exchange symbols: the first entry that matches.\<close>

fun find_symbol :: "symbol_info list \<Rightarrow> string \<Rightarrow> symbol_info option" where
  "find_symbol [] s = None"
| "find_symbol (info # infos) s =
     (if si_symbol info = s then Some info else find_symbol infos s)"

text \<open>
  Lines 89 to 91: a quantity given in USD is divided by the mark price, which
  \<^verbatim>\<open>float(...)\<close> has converted.
\<close>

definition usd_to_contracts ::
  "'j client \<Rightarrow> string \<Rightarrow> real \<Rightarrow> string \<Rightarrow> 'j oms \<Rightarrow> (exn + real) \<times> 'j oms" where
  "usd_to_contracts cl symbol quantity quantity_type st =
     (if upper quantity_type = ''USD'' then
        (case gateway (FuturesMarkPrice symbol) (\<lambda>h. futures_mark_price cl h symbol) st of
           (Inl ex, st1) \<Rightarrow> (Inl ex, st1)
         | (Inr mark_price, st1) \<Rightarrow> (float_truediv quantity (float_of mark_price), st1))
      else (Inr quantity, st))"

definition futures_params ::
  "string \<Rightarrow> string \<Rightarrow> real \<Rightarrow> real option \<Rightarrow> string \<Rightarrow> order_params" where
  "futures_params symbol side quantity price order_type =
     \<lparr>p_symbol = upper symbol, p_side = upper side, p_type = upper order_type,
      p_quantity = quantity,
      p_price = (if upper order_type = ''LIMIT'' then price else None),
      p_timeInForce = (if upper order_type = ''LIMIT'' then Some ''GTC'' else None),
      p_reduceOnly = None\<rparr>"

text \<open>
  The body of the \<^verbatim>\<open>try\<close>. The step and tick size are the filters of the instrument
  after \<^verbatim>\<open>float(...)\<close> (lines 83 and 84). The handler reads the local variables
  \<^verbatim>\<open>quantity\<close> and \<^verbatim>\<open>price\<close>, which the body reassigns, so an exception leaves the
  body together with the values the two variables hold at that moment.
\<close>

definition place_futures_order_try ::
  "'j client \<Rightarrow> string \<Rightarrow> string \<Rightarrow> real \<Rightarrow> real option \<Rightarrow> string \<Rightarrow> string \<Rightarrow> 'j oms
     \<Rightarrow> ((exn \<times> real \<times> real option) + 'j) \<times> 'j oms" where
  "place_futures_order_try cl symbol side quantity price order_type quantity_type st =
     (case gateway FuturesExchangeInfo (futures_exchange_info cl) st of
        (Inl ex, st1) \<Rightarrow> (Inl (ex, quantity, price), st1)
      | (Inr symbol_info, st1) \<Rightarrow>
          (case find_symbol symbol_info (upper symbol) of
             None \<Rightarrow>
               (Inl (ValueError (''Symbol '' @ symbol @ '' not found in exchange info.''),
                     quantity, price), st1)
           | Some info \<Rightarrow>
               (case usd_to_contracts cl symbol quantity quantity_type st1 of
                  (Inl ex, st2) \<Rightarrow> (Inl (ex, quantity, price), st2)
                | (Inr quantity1, st2) \<Rightarrow>
                    (case round_to_step quantity1 (float_of (stepSize info)) of
                       Inl ex \<Rightarrow> (Inl (ex, quantity1, price), st2)
                     | Inr quantity2 \<Rightarrow>
                         (case round_price price (float_of (tickSize info)) of
                            Inl ex \<Rightarrow> (Inl (ex, quantity2, price), st2)
                          | Inr price1 \<Rightarrow>
                              (let params = futures_params symbol side quantity2 price1 order_type in
                               case gateway (FuturesCreateOrder params)
                                      (\<lambda>h. futures_create_order cl h params) st2 of
                                 (Inl ex, st3) \<Rightarrow> (Inl (ex, quantity2, price1), st3)
                               | (Inr order, st3) \<Rightarrow>
                                   (Inr order,
                                    send_telegram_message (FuturesOrderPlaced order)
                                      (st3\<lparr>successful_orders :=
                                         successful_orders st3 @ [order]\<rparr>))))))))"

definition place_futures_order ::
  "'j client \<Rightarrow> string \<Rightarrow> string \<Rightarrow> real \<Rightarrow> real option \<Rightarrow> string \<Rightarrow> string \<Rightarrow> 'j oms
     \<Rightarrow> (exn + 'j option) \<times> 'j oms" where
  "place_futures_order cl symbol side quantity price order_type quantity_type st =
     (case place_futures_order_try cl symbol side quantity price order_type quantity_type st of
        (Inr order, st1) \<Rightarrow> (Inr (Some order), st1)
      | (Inl (ex, quantity', price'), st1) \<Rightarrow>
          (case ex of
             BinanceAPIException e \<Rightarrow>
               (Inr None,
                send_telegram_message (FuturesOrderFailed symbol side e)
                  (st1\<lparr>failed_orders :=
                     failed_orders st1 @ [FailedFuturesOrder symbol side quantity' price' e]\<rparr>))
           | _ \<Rightarrow> (Inl ex, st1)))"

section \<open>\<^verbatim>\<open>change_leverage\<close>\<close>

definition change_leverage ::
  "'j client \<Rightarrow> string \<Rightarrow> int \<Rightarrow> 'j oms \<Rightarrow> (exn + 'j option) \<times> 'j oms" where
  "change_leverage cl symbol leverage st =
     (case gateway (FuturesChangeLeverage symbol leverage)
             (\<lambda>h. futures_change_leverage cl h symbol leverage) st of
        (Inr response, st1) \<Rightarrow>
          (Inr (Some response),
           send_telegram_message (LeverageChanged symbol leverage response) st1)
      | (Inl ex, st1) \<Rightarrow>
          (case ex of
             BinanceAPIException e \<Rightarrow>
               (Inr None, send_telegram_message (LeverageFailed symbol leverage e) st1)
           | _ \<Rightarrow> (Inl ex, st1)))"

section \<open>\<^verbatim>\<open>close_futures_positions\<close>\<close>

text \<open>The three local lists of one invocation.\<close>

record 'j closes =
  successful_closes :: "'j list"
  failed_closes :: "failed_close list"
  unclosable_positions :: "unclosable list"

text \<open>Lines 222 to 227: the quantity to close, from the keyword arguments.\<close>

definition close_quantity ::
  "real option \<Rightarrow> string \<Rightarrow> real option \<Rightarrow> real \<Rightarrow> real \<Rightarrow> exn + real" where
  "close_quantity quantity quantity_type percentage position_amt mark_price =
     (if truthy percentage then Inr (\<bar>position_amt\<bar> * (the percentage / 100))
      else if upper quantity_type = ''USD'' \<and> truthy quantity then
        truediv (the quantity) mark_price
      else Inr (if truthy quantity then the quantity else \<bar>position_amt\<bar>))"

definition close_params :: "string \<Rightarrow> string \<Rightarrow> real \<Rightarrow> order_params" where
  "close_params symbol side qty =
     \<lparr>p_symbol = symbol, p_side = side, p_type = ''MARKET'', p_quantity = qty,
      p_price = None, p_timeInForce = None, p_reduceOnly = Some True\<rparr>"

text \<open>
  The body of the \<^verbatim>\<open>for\<close> loop, lines 211 to 273, for one position. The \<^verbatim>\<open>print\<close> of
  line 231 writes to standard output only and is left out. The mark price is fetched
  outside the inner \<^verbatim>\<open>try\<close>; the inner handler covers the order call alone.
\<close>

definition close_position ::
  "'j client \<Rightarrow> real option \<Rightarrow> string \<Rightarrow> real option \<Rightarrow> position \<Rightarrow> 'j closes \<Rightarrow> 'j oms
     \<Rightarrow> (exn + 'j closes) \<times> 'j oms" where
  "close_position cl quantity quantity_type percentage pos acc st =
     (let position_amt = positionAmt pos in
      if position_amt = 0 then (Inr acc, st)
      else
        (let symbol = pos_symbol pos in
         case gateway (FuturesMarkPrice symbol) (\<lambda>h. futures_mark_price cl h symbol) st of
           (Inl ex, st1) \<Rightarrow> (Inl ex, st1)
         | (Inr mark_price, st1) \<Rightarrow>
             (let notional_value = \<bar>position_amt * mark_price\<bar>;
                  side = (if position_amt > 0 then ''SELL'' else ''BUY'')
              in case close_quantity quantity quantity_type percentage position_amt mark_price of
                   Inl ex \<Rightarrow> (Inl ex, st1)
                 | Inr qty \<Rightarrow>
                     (let params = close_params symbol side qty in
                      case gateway (FuturesCreateOrder params)
                             (\<lambda>h. futures_create_order cl h params) st1 of
                        (Inr order, st2) \<Rightarrow>
                          (Inr (acc\<lparr>successful_closes := successful_closes acc @ [order]\<rparr>),
                           send_telegram_message
                             (if notional_value < 5 then ClosedSmallPosition symbol order
                              else ClosedPosition symbol order) st2)
                      | (Inl ex, st2) \<Rightarrow>
                          (case ex of
                             BinanceAPIException e \<Rightarrow>
                               (if str_contains ''notional must be no smaller than 5'' e then
                                  (Inr (acc\<lparr>unclosable_positions :=
                                          unclosable_positions acc @
                                            [\<lparr>u_symbol = symbol, u_notional = notional_value,
                                              u_error = ''Notional value too small to close.''\<rparr>]\<rparr>),
                                   send_telegram_message
                                     (UnclosablePosition symbol notional_value) st2)
                                else
                                  (Inr (acc\<lparr>failed_closes :=
                                          failed_closes acc @
                                            [\<lparr>fc_symbol = symbol, fc_error = e\<rparr>]\<rparr>),
                                   send_telegram_message (CloseFailed symbol e) st2))
                           | _ \<Rightarrow> (Inl ex, st2))))))"

text \<open>The \<^verbatim>\<open>for position in positions\<close> loop; an exception that escapes a position ends it.\<close>

fun close_loop ::
  "'j client \<Rightarrow> real option \<Rightarrow> string \<Rightarrow> real option \<Rightarrow> position list \<Rightarrow> 'j closes \<Rightarrow> 'j oms
     \<Rightarrow> (exn + 'j closes) \<times> 'j oms" where
  "close_loop cl quantity quantity_type percentage [] acc st = (Inr acc, st)"
| "close_loop cl quantity quantity_type percentage (pos # positions) acc st =
     (case close_position cl quantity quantity_type percentage pos acc st of
        (Inl ex, st1) \<Rightarrow> (Inl ex, st1)
      | (Inr acc1, st1) \<Rightarrow> close_loop cl quantity quantity_type percentage positions acc1 st1)"

text \<open>The body of the outer \<^verbatim>\<open>try\<close>, lines 198 to 281.\<close>

definition close_futures_positions_try ::
  "'j client \<Rightarrow> string option \<Rightarrow> real option \<Rightarrow> string \<Rightarrow> real option \<Rightarrow> 'j oms
     \<Rightarrow> (exn + 'j closes) \<times> 'j oms" where
  "close_futures_positions_try cl symbol quantity quantity_type percentage st =
     (case gateway FuturesAccount (futures_account cl) st of
        (Inl ex, st1) \<Rightarrow> (Inl ex, st1)
      | (Inr positions, st1) \<Rightarrow>
          (let positions1 =
                 (if truthy_str symbol
                  then filter (\<lambda>pos. pos_symbol pos = upper (the symbol)) positions
                  else positions)
           in case close_loop cl quantity quantity_type percentage positions1
                     \<lparr>successful_closes = [], failed_closes = [], unclosable_positions = []\<rparr> st1 of
                (Inl ex, st2) \<Rightarrow> (Inl ex, st2)
              | (Inr acc, st2) \<Rightarrow>
                  (Inr acc,
                   (if unclosable_positions acc \<noteq> []
                    then send_telegram_message (UnclosablePositions (unclosable_positions acc)) st2
                    else st2))))"

text \<open>
  The returned triple: three lists, or \<^verbatim>\<open>(None, None, None)\<close> from the outer handler.
\<close>

type_synonym 'j close_result =
  "'j list option \<times> failed_close list option \<times> unclosable list option"

definition close_futures_positions ::
  "'j client \<Rightarrow> string option \<Rightarrow> real option \<Rightarrow> string \<Rightarrow> real option \<Rightarrow> 'j oms
     \<Rightarrow> (exn + 'j close_result) \<times> 'j oms" where
  "close_futures_positions cl symbol quantity quantity_type percentage st =
     (case close_futures_positions_try cl symbol quantity quantity_type percentage st of
        (Inr acc, st1) \<Rightarrow>
          (Inr (Some (successful_closes acc), Some (failed_closes acc),
                Some (unclosable_positions acc)), st1)
      | (Inl ex, st1) \<Rightarrow>
          (case ex of
             BinanceAPIException e \<Rightarrow>
               (Inr (None, None, None), send_telegram_message (FetchPositionsFailed e) st1)
           | _ \<Rightarrow> (Inl ex, st1)))"

section \<open>A concrete exchange for the examples\<close>

text \<open>
  An instance as \<^verbatim>\<open>__init__\<close> leaves it: the account call of line 26 is logged, both
  accumulators are empty.
\<close>

definition new_instance :: "string oms" where
  "new_instance =
     \<lparr>successful_orders = [], failed_orders = [], telegram_sent = [], calls = [FuturesAccount]\<rparr>"

definition notional_error :: string where
  "notional_error =
     ''APIError(code=-4164): Order notional must be no smaller than 5 (unless you choose reduce only).''"

definition margin_error :: string where
  "margin_error = ''APIError(code=-2019): Margin is insufficient.''"

definition lot_size_error :: string where
  "lot_size_error = ''APIError(code=-1013): Filter failure: LOT_SIZE''"

definition symbol_error :: string where
  "symbol_error = ''APIError(code=-1121): Invalid symbol.''"

definition leverage_error :: string where
  "leverage_error = ''APIError(code=-4028): Leverage is not valid''"

definition server_error :: string where
  "server_error = ''APIError(code=-1001): Internal error; unable to process your request.''"

text \<open>The table of the \<^verbatim>\<open>__main__\<close> example, and a second one with an order that is too small.\<close>

definition orders_df :: "order_row list" where
  "orders_df =
     [\<lparr>Symbol = ''BTCUSDT'', Side = ''BUY'', Size = 1 / 1000, Price = 20000\<rparr>,
      \<lparr>Symbol = ''ETHUSDT'', Side = ''SELL'', Size = 1 / 100, Price = 1500\<rparr>]"

definition orders_df2 :: "order_row list" where
  "orders_df2 =
     [\<lparr>Symbol = ''BTCUSDT'', Side = ''buy'', Size = 2 / 1000, Price = 20000\<rparr>,
      \<lparr>Symbol = ''ADAUSDT'', Side = ''buy'', Size = 1 / 10000, Price = 2 / 5\<rparr>,
      \<lparr>Symbol = ''ETHUSDT'', Side = ''sell'', Size = 1 / 100, Price = 1500\<rparr>]"

text \<open>
  A small exchange: spot orders below 0.001 are rejected; futures orders on ETHUSDT are
  rejected for their notional, those on XRPUSDT for margin; four instruments are listed,
  one with both filters zero and one with a zero tick size; leverage below 1 is rejected.
\<close>

definition exchange :: "string client" where
  "exchange =
     \<lparr>create_order =
        (\<lambda>h p. if p_quantity p < 1 / 1000 then Inl (BinanceAPIException lot_size_error)
               else Inr (''spot '' @ p_side p @ '' '' @ p_symbol p)),
      futures_create_order =
        (\<lambda>h p. if p_symbol p = ''ETHUSDT'' then Inl (BinanceAPIException notional_error)
               else if p_symbol p = ''XRPUSDT'' then Inl (BinanceAPIException margin_error)
               else Inr (''futures '' @ p_side p @ '' '' @ p_symbol p)),
      futures_exchange_info =
        (\<lambda>h. Inr [\<lparr>si_symbol = ''BTCUSDT'', stepSize = 1 / 1000, tickSize = 1 / 10\<rparr>,
                  \<lparr>si_symbol = ''XRPUSDT'', stepSize = 1 / 1000, tickSize = 1 / 10\<rparr>,
                  \<lparr>si_symbol = ''NEWUSDT'', stepSize = 0, tickSize = 0\<rparr>,
                  \<lparr>si_symbol = ''OLDUSDT'', stepSize = 1 / 1000, tickSize = 0\<rparr>]),
      futures_mark_price =
        (\<lambda>h s. if s = ''BTCUSDT'' then Inr 60000
               else if s = ''ETHUSDT'' then Inr 3000
               else if s = ''ADAUSDT'' then Inr (2 / 5)
               else if s = ''XRPUSDT'' then Inr (1 / 2)
               else Inl (BinanceAPIException symbol_error)),
      futures_account =
        (\<lambda>h. Inr [\<lparr>pos_symbol = ''BTCUSDT'', positionAmt = 1 / 2\<rparr>,
                  \<lparr>pos_symbol = ''ETHUSDT'', positionAmt = 1 / 1000\<rparr>,
                  \<lparr>pos_symbol = ''ADAUSDT'', positionAmt = - 100\<rparr>]),
      futures_change_leverage =
        (\<lambda>h s l. if l < 1 then Inl (BinanceAPIException leverage_error)
                 else Inr (''leverage '' @ s))\<rparr>"

text \<open>
  An account with three open positions, the second of them in an instrument whose mark
  price the exchange no longer serves.
\<close>

definition lost_account :: "position list" where
  "lost_account =
     [\<lparr>pos_symbol = ''BTCUSDT'', positionAmt = 1 / 2\<rparr>,
      \<lparr>pos_symbol = ''LUNAUSDT'', positionAmt = 10\<rparr>,
      \<lparr>pos_symbol = ''ADAUSDT'', positionAmt = - 100\<rparr>]"


text \<open>
  The same exchange with coarser filters: a step and tick size of 0.5 for BTCUSDT, a step
  size of 1 for XRPUSDT.
\<close>

definition coarse_exchange :: "string client" where
  "coarse_exchange =
     exchange\<lparr>futures_exchange_info :=
       (\<lambda>h. Inr [\<lparr>si_symbol = ''BTCUSDT'', stepSize = 1 / 2, tickSize = 1 / 2\<rparr>,
                 \<lparr>si_symbol = ''XRPUSDT'', stepSize = 1, tickSize = 1 / 2\<rparr>])\<rparr>"

section \<open>Upper-casing the words of the examples\<close>

lemma upper_words:
  "upper ''buy'' = ''BUY''" "upper ''sell'' = ''SELL''" "upper ''BUY'' = ''BUY''"
  "upper ''SELL'' = ''SELL''" "upper ''MARKET'' = ''MARKET''" "upper ''usd'' = ''USD''"
  "upper ''USD'' = ''USD''" "upper ''CONTRACTS'' = ''CONTRACTS''"
  "upper ''XRPUSDT'' = ''XRPUSDT''" "upper ''NEWUSDT'' = ''NEWUSDT''"
  "upper ''OLDUSDT'' = ''OLDUSDT''" "upper ''BTCUSDT'' = ''BTCUSDT''"
  by (simp_all add: upper_def upper_char_def)

section \<open>Rounding to the nearest double\<close>

lemma py_round_near:
  assumes "of_int k - 1 / 2 < x" and "x < of_int k + 1 / 2"
  shows "py_round x = k"
proof -
  have f: "\<lfloor>x + 1 / 2\<rfloor> = k"
    using assms by (simp add: floor_eq_iff)
  have "x - of_int \<lfloor>x\<rfloor> \<noteq> 1 / 2"
  proof
    assume h: "x - of_int \<lfloor>x\<rfloor> = 1 / 2"
    then have "x + 1 / 2 = of_int (\<lfloor>x\<rfloor> + 1)" by simp
    then have "\<lfloor>x + 1 / 2\<rfloor> = \<lfloor>x\<rfloor> + 1" by (metis floor_of_int)
    with f have "of_int \<lfloor>x\<rfloor> = (of_int k :: real) - 1" by simp
    with h assms(1) show False by simp
  qed
  with f show ?thesis by (simp add: py_round_def)
qed

lemma py_round_of_int: "py_round (of_int k) = k"
  by (simp add: py_round_def)

lemma py_round_error: "\<bar>of_int (py_round y) - y\<bar> \<le> 1 / 2"
proof (cases "y - of_int \<lfloor>y\<rfloor> = 1 / 2")
  case True
  then show ?thesis by (auto simp: py_round_def)
next
  case False
  have "of_int \<lfloor>y + 1 / 2\<rfloor> \<le> y + 1 / 2" by (rule of_int_floor_le)
  moreover have "y + 1 / 2 < of_int \<lfloor>y + 1 / 2\<rfloor> + 1" by linarith
  ultimately have "\<bar>of_int \<lfloor>y + 1 / 2\<rfloor> - y\<bar> \<le> 1 / 2" by linarith
  then show ?thesis using False by (simp only: py_round_def if_False)
qed

lemma py_round_ge_floor: "\<lfloor>y\<rfloor> \<le> py_round y"
  by (auto simp: py_round_def intro: floor_mono)

text \<open>The exponent of a number between two powers of two, and the double it becomes.\<close>

lemma float_exponent:
  assumes "2 powi e \<le> \<bar>x\<bar>" and "\<bar>x\<bar> < 2 powi (e + 1)"
  shows "\<lfloor>log 2 \<bar>x\<bar>\<rfloor> = e"
proof -
  have pos: "0 < \<bar>x\<bar>"
    using assms(1) by (smt (verit) zero_less_power_int)
  have lo: "(2::real) powr of_int e \<le> \<bar>x\<bar>"
    using assms(1) by (simp add: powr_real_of_int')
  have "(2::real) powr of_int (e + 1) = 2 powi (e + 1)"
    by (rule powr_real_of_int') simp_all
  then have hi: "\<bar>x\<bar> < (2::real) powr of_int (e + 1)"
    using assms(2) by simp
  have "(\<lfloor>log 2 \<bar>x\<bar>\<rfloor> = e) =
        (2 powr of_int e \<le> \<bar>x\<bar> \<and> \<bar>x\<bar> < 2 powr of_int (e + 1))"
    by (rule floor_log_eq_powr_iff [OF pos]) simp
  then show ?thesis using lo hi by blast
qed

lemma float_of_eval:
  assumes "2 powi e \<le> \<bar>x\<bar>" and "\<bar>x\<bar> < 2 powi (e + 1)"
  shows "float_of x = of_int (py_round (x / 2 powi (e - 52))) * 2 powi (e - 52)"
proof -
  have "x \<noteq> 0"
    using assms(1) by (smt (verit) zero_less_power_int abs_zero)
  then show ?thesis
    by (simp add: float_of_def float_exponent [OF assms])
qed

text \<open>Rounding moves a number by at most half a unit of its last bit.\<close>

lemma float_of_error:
  assumes "2 powi e \<le> \<bar>x\<bar>" and "\<bar>x\<bar> < 2 powi (e + 1)"
  shows "\<bar>float_of x - x\<bar> \<le> 2 powi (e - 53)"
proof -
  let ?u = "(2::real) powi (e - 52)"
  have u: "0 < ?u" by simp
  have "float_of x - x = (of_int (py_round (x / ?u)) - x / ?u) * ?u"
    using u by (simp add: float_of_eval [OF assms] field_simps)
  then have "\<bar>float_of x - x\<bar> = \<bar>of_int (py_round (x / ?u)) - x / ?u\<bar> * ?u"
    using u by (simp add: abs_mult)
  also have "\<dots> \<le> 1 / 2 * ?u"
    using py_round_error [of "x / ?u"] u by (simp add: mult_right_mono)
  also have "1 / 2 * ?u = 2 powi (e - 53)"
    by (simp add: power_int_diff)
  finally show ?thesis .
qed

lemma float_of_pos:
  assumes "0 < x"
  shows "0 < float_of x"
proof -
  let ?e = "\<lfloor>log 2 \<bar>x\<bar>\<rfloor>"
  let ?u = "(2::real) powi (?e - 52)"
  have "of_int ?e \<le> log 2 x" using assms by simp
  then have "2 powr of_int ?e \<le> x"
    using assms by (simp add: powr_le_iff)
  then have le: "2 powi ?e \<le> x"
    by (simp add: powr_real_of_int')
  have "x / ?u = x / 2 powi ?e * 2 ^ 52"
    by (simp add: power_int_diff)
  moreover have "1 \<le> x / 2 powi ?e"
    using le by (simp add: field_simps)
  ultimately have "1 \<le> x / ?u"
    by (smt (verit) mult_le_cancel_left1 one_le_power mult.commute mult_left_mono)
  then have "1 \<le> \<lfloor>x / ?u\<rfloor>" by simp
  then have "1 \<le> py_round (x / ?u)"
    using py_round_ge_floor [of "x / ?u"] by linarith
  then have "0 < of_int (py_round (x / ?u)) * ?u"
    by simp
  then show ?thesis using assms by (simp add: float_of_def)
qed

lemma float_of_eq_0_iff: "float_of x = 0 \<longleftrightarrow> x = 0"
proof
  assume z: "float_of x = 0"
  show "x = 0"
  proof (rule ccontr)
    assume nz: "x \<noteq> 0"
    let ?e = "\<lfloor>log 2 \<bar>x\<bar>\<rfloor>"
    let ?u = "(2::real) powi (?e - 52)"
    have "of_int ?e \<le> log 2 \<bar>x\<bar>" by simp
    then have "2 powr of_int ?e \<le> \<bar>x\<bar>"
      using nz by (simp add: powr_le_iff)
    then have le: "2 powi ?e \<le> \<bar>x\<bar>"
      by (simp add: powr_real_of_int')
    have "\<bar>x\<bar> / ?u = \<bar>x\<bar> / 2 powi ?e * 2 ^ 52"
      by (simp add: power_int_diff)
    moreover have "1 \<le> \<bar>x\<bar> / 2 powi ?e"
      using le by (simp add: field_simps)
    ultimately have "1 \<le> \<bar>x\<bar> / ?u"
      by (smt (verit) mult_le_cancel_left1 one_le_power mult.commute mult_left_mono)
    then have big: "1 \<le> \<bar>x / ?u\<bar>" by (simp add: abs_divide)
    from z nz have "py_round (x / ?u) = 0" by (simp add: float_of_def)
    then have "\<bar>x / ?u\<bar> \<le> 1 / 2"
      using py_round_error [of "x / ?u"] by simp
    with big show False by linarith
  qed
next
  assume "x = 0"
  then show "float_of x = 0" by (simp add: float_of_def)
qed

text \<open>A number with a significand of at most 53 bits is a double as it stands.\<close>

lemma float_of_exact:
  assumes "2 powi e \<le> \<bar>x\<bar>" and "\<bar>x\<bar> < 2 powi (e + 1)"
    and "x / 2 powi (e - 52) = of_int n"
  shows "float_of x = x"
proof -
  have "float_of x = of_int n * 2 powi (e - 52)"
    by (simp only: float_of_eval [OF assms(1,2)] assms(3) py_round_of_int)
  also have "\<dots> = x"
    using assms(3) by (simp add: field_simps)
  finally show ?thesis .
qed

lemma float_of_small_numbers:
  "float_of (1 / 2) = 1 / 2" "float_of 1 = 1" "float_of (3 / 2) = 3 / 2" "float_of 2 = 2"
  "float_of 3 = 3" "float_of 499 = 499"
proof -
  show "float_of (1 / 2) = 1 / 2"
    by (rule float_of_exact [where e = "- 1" and n = "2 ^ 52"])
       (simp_all add: power_int_minus field_simps)
  show "float_of 1 = 1"
    by (rule float_of_exact [where e = 0 and n = "2 ^ 52"])
       (simp_all add: power_int_minus field_simps)
  show "float_of (3 / 2) = 3 / 2"
    by (rule float_of_exact [where e = 0 and n = "3 * 2 ^ 51"])
       (simp_all add: power_int_minus field_simps)
  show "float_of 2 = 2"
    by (rule float_of_exact [where e = 1 and n = "2 ^ 52"])
       (simp_all add: power_int_minus field_simps)
  show "float_of 3 = 3"
    by (rule float_of_exact [where e = 1 and n = "3 * 2 ^ 51"])
       (simp_all add: power_int_minus field_simps)
  show "float_of 499 = 499"
    by (rule float_of_exact [where e = 8 and n = "499 * 2 ^ 44"])
       (simp_all add: power_int_minus field_simps)
qed

text \<open>
  \<^verbatim>\<open>float('0.001')\<close> is \<open>4611686018427388 / 2 ^ 62\<close>, a little more than one thousandth; the
  double nearest to 0.499; and the product \<^verbatim>\<open>499.0 * 0.001\<close>, which is that double.
\<close>

lemma float_of_thousandth: "float_of (1 / 1000) = 4611686018427388 / 2 ^ 62"
proof -
  have "float_of (1 / 1000) =
          of_int (py_round ((1 / 1000) / 2 powi (- 10 - 52))) * 2 powi (- 10 - 52)"
    by (rule float_of_eval) (simp_all add: power_int_minus field_simps)
  also have "(1 / 1000) / (2::real) powi (- 10 - 52) = 4611686018427387904 / 1000"
    by (simp add: power_int_minus field_simps)
  also have "py_round (4611686018427387904 / 1000) = 4611686018427388"
    by (simp add: py_round_def)
  finally show ?thesis by (simp add: power_int_minus field_simps)
qed

lemma float_of_499_thousandths: "float_of (499 / 1000) = 8989184856231510 / 2 ^ 54"
proof -
  have "float_of (499 / 1000) =
          of_int (py_round ((499 / 1000) / 2 powi (- 2 - 52))) * 2 powi (- 2 - 52)"
    by (rule float_of_eval) (simp_all add: power_int_minus field_simps)
  also have "(499 / 1000) / (2::real) powi (- 2 - 52) = 499 * 18014398509481984 / 1000"
    by (simp add: power_int_minus field_simps)
  also have "py_round (499 * 18014398509481984 / 1000) = 8989184856231510"
    by (simp add: py_round_def)
  finally show ?thesis by (simp add: power_int_minus field_simps)
qed

lemma float_of_product_499:
  "float_of (499 * (4611686018427388 / 2 ^ 62)) = 8989184856231510 / 2 ^ 54"
proof -
  have "float_of (499 * (4611686018427388 / 2 ^ 62)) =
          of_int (py_round ((499 * (4611686018427388 / 2 ^ 62)) / 2 powi (- 2 - 52))) *
            2 powi (- 2 - 52)"
    by (rule float_of_eval) (simp_all add: power_int_minus field_simps)
  also have "(499 * (4611686018427388 / 2 ^ 62)) / (2::real) powi (- 2 - 52) =
             2301231323195266612 / 256"
    by (simp add: power_int_minus field_simps)
  also have "py_round (2301231323195266612 / 256) = 8989184856231510"
    by (simp add: py_round_def)
  finally show ?thesis by (simp add: power_int_minus field_simps)
qed

text \<open>The decimal logarithm of 2 lies between a quarter and a third.\<close>

lemma log10_2_bounds: "1 / 4 \<le> log 10 2" "log 10 2 < 1 / 3"
proof -
  have "log 10 16 = 4 * log 10 2"
    using log_nat_power [of 2 10 4] by simp
  moreover have "log 10 10 \<le> log 10 16"
    by (subst log_le_cancel_iff) simp_all
  ultimately show "1 / 4 \<le> log 10 2" by simp
  have "log 10 8 = 3 * log 10 2"
    using log_nat_power [of 2 10 3] by simp
  moreover have "log 10 8 < log 10 10"
    by (subst log_less_cancel_iff) simp_all
  ultimately show "log 10 2 < 1 / 3" by simp
qed

text \<open>
  \<^verbatim>\<open>round(math.log10(0.5))\<close> is 0 and \<^verbatim>\<open>round(math.log10(0.001))\<close> is -3, for the doubles
  that 0.5 and 0.001 are.
\<close>

lemma py_round_log10_half: "py_round (float_of (log 10 (1 / 2))) = 0"
proof -
  let ?x = "log 10 (1 / 2)"
  have x: "?x = - log 10 2"
    by (simp add: log_divide)
  have lo: "2 powi (- 2) \<le> \<bar>?x\<bar>"
    using log10_2_bounds(1) by (simp add: x power_int_minus)
  have hi: "\<bar>?x\<bar> < 2 powi (- 2 + 1)"
    using log10_2_bounds by (simp add: x power_int_minus)
  have "\<bar>float_of ?x - ?x\<bar> \<le> 2 powi (- 2 - 53)"
    by (rule float_of_error [OF lo hi])
  moreover have "(2::real) powi (- 2 - 53) \<le> 1 / 8"
    by (simp add: power_int_minus field_simps)
  ultimately have "\<bar>float_of ?x - ?x\<bar> \<le> 1 / 8" by linarith
  then have "of_int 0 - 1 / 2 < float_of ?x" and "float_of ?x < of_int 0 + 1 / 2"
    using log10_2_bounds unfolding x by linarith+
  then show ?thesis by (rule py_round_near)
qed

lemma py_round_log10_thousandth:
  "py_round (float_of (log 10 (4611686018427388 / 2 ^ 62))) = - 3"
proof -
  let ?s = "4611686018427388 / 2 ^ 62 :: real"
  let ?x = "log 10 ?s"
  have "log 10 (1 / 2000) \<le> ?x"
    by (subst log_le_cancel_iff) simp_all
  moreover have "log 10 2000 = log 10 2 + log 10 1000"
    using log_mult [of 10 2 1000] by simp
  then have "log 10 (1 / 2000) = - (log 10 2 + log 10 1000)"
    by (simp add: log_divide)
  moreover have "?x \<le> log 10 (2 / 1000)"
    by (subst log_le_cancel_iff) simp_all
  moreover have "log 10 (2 / 1000) = log 10 2 - log 10 1000"
    using log_divide [of 10 2 1000] by simp
  moreover have "log 10 1000 = 3"
    using log_nat_power [of 10 10 3] by simp
  ultimately have b: "- 3 - 1 / 3 < ?x" "?x < - 3 + 1 / 3"
    using log10_2_bounds by linarith+
  have lo: "2 powi 1 \<le> \<bar>?x\<bar>" and hi: "\<bar>?x\<bar> < 2 powi (1 + 1)"
    using b by simp_all
  have "\<bar>float_of ?x - ?x\<bar> \<le> 2 powi (1 - 53)"
    by (rule float_of_error [OF lo hi])
  moreover have "(2::real) powi (1 - 53) \<le> 1 / 8"
    by (simp add: power_int_minus field_simps)
  ultimately have "\<bar>float_of ?x - ?x\<bar> \<le> 1 / 8" by linarith
  then have "- 3 - 1 / 2 < float_of ?x" and "float_of ?x < - 3 + 1 / 2"
    using b by linarith+
  then have "of_int (- 3) - 1 / 2 < float_of ?x" and "float_of ?x < of_int (- 3) + 1 / 2"
    by simp_all
  then show ?thesis by (rule py_round_near)
qed

section \<open>Rounding to the step size\<close>

text \<open>
  Three runs of line 94. With a step of 0.5 the number of decimals is
  \<open>-round(log10 0.5) = 0\<close>: 1.75 is floored to 1.5, and \<^verbatim>\<open>round(1.5, 0)\<close> is 2.0. With a
  step of 1 the quantity 2.5 becomes 2.0. With the step \<^verbatim>\<open>float('0.001')\<close> the quantity
  0.5 is floored to 499 steps, since the double is more than a thousandth, and 0.499
  comes out.
\<close>

lemma round_to_step_half: "round_to_step (7 / 4) (float_of (1 / 2)) = Inr 2"
proof -
  have 1: "floordiv (7 / 4) (1 / 2) = Inr 3"
    by (simp add: floordiv_def float_of_small_numbers)
  have 2: "math_log10 (1 / 2) = Inr (float_of (log 10 (1 / 2)))"
    by (simp add: math_log10_def)
  have 3: "float_of (3 * (1 / 2)) = 3 / 2"
    using float_of_small_numbers(3) by simp
  have 4: "py_round_ndigits (3 / 2) (- 1 * 0) = 2"
    by (simp add: py_round_ndigits_def py_round_def float_of_small_numbers)
  show ?thesis
    unfolding float_of_small_numbers(1) round_to_step_def 1 2 sum.case 3
      py_round_log10_half 4 ..
qed

lemma round_to_step_one: "round_to_step (5 / 2) (float_of 1) = Inr 2"
proof -
  have 1: "floordiv (5 / 2) 1 = Inr 2"
    by (simp add: floordiv_def float_of_small_numbers)
  have 2: "math_log10 1 = Inr 0"
    by (simp add: math_log10_def float_of_def)
  have 3: "float_of (2 * 1) = 2"
    using float_of_small_numbers(4) by simp
  have 4: "py_round_ndigits 2 (- 1 * py_round 0) = 2"
    by (simp add: py_round_ndigits_def py_round_def float_of_small_numbers)
  show ?thesis
    unfolding float_of_small_numbers(2) round_to_step_def 1 2 sum.case 3 4 ..
qed

lemma floordiv_thousandth: "floordiv (1 / 2) (float_of (1 / 1000)) = Inr 499"
proof -
  have "\<lfloor>(1 / 2) / (4611686018427388 / 2 ^ 62 :: real)\<rfloor> = 499"
    by (simp add: floor_eq_iff)
  then show ?thesis
    by (simp add: floordiv_def float_of_thousandth float_of_small_numbers)
qed

lemma round_to_step_thousandth:
  "round_to_step (1 / 2) (float_of (1 / 1000)) = Inr (float_of (499 / 1000))"
proof -
  let ?s = "4611686018427388 / 2 ^ 62 :: real"
  have "\<lfloor>(1 / 2) / ?s\<rfloor> = 499"
    by (simp add: floor_eq_iff)
  then have 1: "floordiv (1 / 2) ?s = Inr 499"
    by (simp add: floordiv_def float_of_small_numbers)
  have 2: "math_log10 ?s = Inr (float_of (log 10 ?s))"
    by (simp add: math_log10_def)
  have 3: "float_of (499 * ?s) = 8989184856231510 / 2 ^ 54"
    by (rule float_of_product_499)
  have "py_round (8989184856231510 / 2 ^ 54 * 10 ^ 3) = 499"
    by (rule py_round_near) simp_all
  then have 4: "py_round_ndigits (8989184856231510 / 2 ^ 54) (- 1 * - 3) = float_of (499 / 1000)"
    by (simp add: py_round_ndigits_def)
  show ?thesis
    unfolding float_of_thousandth round_to_step_def 1 2 sum.case 3
      py_round_log10_thousandth 4 ..
qed

text \<open>
  Claim C1 fails on the code. On an instrument with a step size of 0.5, an order for 1.75
  is sent with the quantity 2: the floor, 1.5, is rounded to zero decimals, which takes it
  above the quantity asked for.
\<close>

theorem place_futures_order_rounds_up:
  "round_to_step (7 / 4) (float_of (1 / 2)) = Inr 2 \<and> (7 / 4 :: real) < 2 \<and>
   place_futures_order coarse_exchange ''BTCUSDT'' ''BUY'' (7 / 4) None ''MARKET'' ''CONTRACTS''
       new_instance =
     (Inr (Some ''futures BUY BTCUSDT''),
      \<lparr>successful_orders = [''futures BUY BTCUSDT''], failed_orders = [],
       telegram_sent = [FuturesOrderPlaced ''futures BUY BTCUSDT''],
       calls = [FuturesAccount, FuturesExchangeInfo,
                FuturesCreateOrder (futures_params ''BTCUSDT'' ''BUY'' 2 None ''MARKET'')]\<rparr>)"
  by (simp add: round_to_step_half place_futures_order_def place_futures_order_try_def
      gateway_def coarse_exchange_def exchange_def new_instance_def usd_to_contracts_def
      upper_words round_price_def truthy_def futures_params_def send_telegram_message_def)

section \<open>The quantity to close\<close>

text \<open>
  Claim C6, as the code has it. A parameter counts as supplied when it is neither
  \<^verbatim>\<open>None\<close> nor zero. A supplied percentage \<open>p\<close> gives \<open>|a| * p / 100\<close> whatever the
  other parameters and the mark price are; without one, a supplied quantity \<open>u\<close> of type
  USD gives \<open>u / m\<close> (for a mark price \<open>m\<close> other than zero); without either, a supplied
  quantity \<open>q\<close> gives \<open>q\<close>; with nothing supplied the result is \<open>|a|\<close>.
\<close>

theorem close_quantity_precedence:
  "(p \<noteq> 0 \<longrightarrow>
      close_quantity quantity quantity_type (Some p) a m = Inr (\<bar>a\<bar> * p / 100)) \<and>
   (\<not> truthy percentage \<and> upper quantity_type = ''USD'' \<and> u \<noteq> 0 \<and> m \<noteq> 0 \<longrightarrow>
      close_quantity (Some u) quantity_type percentage a m = Inr (u / m)) \<and>
   (\<not> truthy percentage \<and> upper quantity_type \<noteq> ''USD'' \<and> q \<noteq> 0 \<longrightarrow>
      close_quantity (Some q) quantity_type percentage a m = Inr q) \<and>
   (\<not> truthy percentage \<and> \<not> truthy quantity \<longrightarrow>
      close_quantity quantity quantity_type percentage a m = Inr \<bar>a\<bar>)"
  by (simp add: close_quantity_def truthy_def truediv_def)

text \<open>
  The examples of the spec: 50 percent of a position of 10 is 5 at any mark price, and 100
  USD at a mark price of 50000 is 0.002; then a fixed quantity and the default.
\<close>

theorem close_quantity_precedence_witness:
  "close_quantity (Some 3) ''usd'' (Some 50) 10 60000 = Inr 5 \<and>
   close_quantity (Some 100) ''usd'' None (- 1) 50000 = Inr (1 / 500) \<and>
   close_quantity (Some 3) ''CONTRACTS'' (Some 0) 10 60000 = Inr 3 \<and>
   close_quantity None ''usd'' None (- 10) 60000 = Inr 10"
  using close_quantity_precedence [of 50 "Some 3" "''usd''" 10 60000 None 100 3]
    close_quantity_precedence [of 50 "Some 3" "''usd''" "- 1" 50000 None 100 3]
    close_quantity_precedence [of 50 None "''CONTRACTS''" 10 60000 "Some 0" 100 3]
    close_quantity_precedence [of 50 None "''usd''" "- 10" 60000 None 100 3]
  by (simp add: truthy_def upper_def upper_char_def)

text \<open>
  Claim C6 as stated fails for a fixed quantity of zero: the code closes the whole
  position of 10 instead of 0.
\<close>

theorem close_quantity_zero_counterexample:
  "close_quantity (Some 0) ''CONTRACTS'' None 10 50000 \<noteq> Inr 0"
  by (simp add: close_quantity_def truthy_def)

section \<open>Changing the leverage\<close>

text \<open>
  Claim C8, as the code has it. For every leverage value, non-positive ones included,
  \<^verbatim>\<open>change_leverage\<close> makes exactly one call on the client, with the symbol and the
  leverage as given, and returns what that call answers: the response, or \<^verbatim>\<open>None\<close> after
  a \<^verbatim>\<open>BinanceAPIException\<close>; either outcome is notified. No value is rejected locally.
\<close>

theorem change_leverage_always_calls_gateway:
  "calls (snd (change_leverage cl symbol leverage st)) =
     calls st @ [FuturesChangeLeverage symbol leverage] \<and>
   fst (change_leverage cl symbol leverage st) =
     (case futures_change_leverage cl (calls st) symbol leverage of
        Inr response \<Rightarrow> Inr (Some response)
      | Inl ex \<Rightarrow> (case ex of BinanceAPIException e \<Rightarrow> Inr None | _ \<Rightarrow> Inl ex)) \<and>
   telegram_sent (snd (change_leverage cl symbol leverage st)) =
     telegram_sent st @
       (case futures_change_leverage cl (calls st) symbol leverage of
          Inr response \<Rightarrow> [LeverageChanged symbol leverage response]
        | Inl ex \<Rightarrow>
            (case ex of BinanceAPIException e \<Rightarrow> [LeverageFailed symbol leverage e] | _ \<Rightarrow> []))"
  by (simp add: change_leverage_def gateway_def send_telegram_message_def
      split: sum.splits exn.splits)

text \<open>
  Claim C8 as stated fails: with leverage -1 the request reaches the exchange, and the
  failure that is reported is the one the exchange returned.
\<close>

theorem change_leverage_negative_counterexample:
  "change_leverage exchange ''BTCUSDT'' (- 1) new_instance =
     (Inr None,
      \<lparr>successful_orders = [], failed_orders = [],
       telegram_sent = [LeverageFailed ''BTCUSDT'' (- 1) leverage_error],
       calls = [FuturesAccount, FuturesChangeLeverage ''BTCUSDT'' (- 1)]\<rparr>)"
  by (simp add: change_leverage_def gateway_def exchange_def new_instance_def
      send_telegram_message_def)

section \<open>Closing positions: the account fetch\<close>

text \<open>
  Claim C10. When the fetch of the account positions raises a \<^verbatim>\<open>BinanceAPIException\<close>,
  \<^verbatim>\<open>close_futures_positions\<close> returns the triple \<^verbatim>\<open>(None, None, None)\<close>, not three lists,
  after one notification; no other call is made.
\<close>

theorem close_futures_positions_account_error:
  assumes "futures_account cl (calls st) = Inl (BinanceAPIException e)"
  shows "close_futures_positions cl symbol quantity quantity_type percentage st =
     (Inr (None, None, None),
      send_telegram_message (FetchPositionsFailed e) (st\<lparr>calls := calls st @ [FuturesAccount]\<rparr>))"
  using assms
  by (simp add: close_futures_positions_def close_futures_positions_try_def gateway_def)

theorem close_futures_positions_account_error_witness:
  "futures_account (exchange\<lparr>futures_account := \<lambda>h. Inl (BinanceAPIException server_error)\<rparr>)
      (calls new_instance) = Inl (BinanceAPIException server_error) \<and>
   close_futures_positions (exchange\<lparr>futures_account := \<lambda>h. Inl (BinanceAPIException server_error)\<rparr>)
      None None ''CONTRACTS'' None new_instance =
     (Inr (None, None, None),
      \<lparr>successful_orders = [], failed_orders = [],
       telegram_sent = [FetchPositionsFailed server_error],
       calls = [FuturesAccount, FuturesAccount]\<rparr>)"
  using close_futures_positions_account_error
    [of "exchange\<lparr>futures_account := \<lambda>h. Inl (BinanceAPIException server_error)\<rparr>"
      new_instance server_error None None "''CONTRACTS''" None]
  by (simp add: new_instance_def send_telegram_message_def)

section \<open>Batch orders\<close>

lemma place_order_confirmed:
  assumes "create_order cl (calls st) (spot_params symbol side sz price order_type) = Inr c"
  shows "place_order cl symbol side sz price order_type st =
     (Inr (),
      st\<lparr>calls := calls st @ [CreateOrder (spot_params symbol side sz price order_type)],
         successful_orders := successful_orders st @ [c],
         telegram_sent := telegram_sent st @ [OrderPlaced c]\<rparr>)"
  using assms by (simp add: place_order_def gateway_def send_telegram_message_def)

lemma place_order_rejected:
  assumes "create_order cl (calls st) (spot_params symbol side sz price order_type) =
             Inl (BinanceAPIException e)"
  shows "place_order cl symbol side sz price order_type st =
     (Inr (),
      st\<lparr>calls := calls st @ [CreateOrder (spot_params symbol side sz price order_type)],
         failed_orders := failed_orders st @ [FailedOrder symbol side sz price e],
         telegram_sent := telegram_sent st @ [OrderFailed symbol side e]\<rparr>)"
  using assms by (simp add: place_order_def gateway_def send_telegram_message_def)

lemma answer_to_row_0:
  "answer_to_row cl st (row # rows) 0 = create_order cl (calls st) (row_params row)"
  by (simp add: answer_to_row_def)

lemma answer_to_row_Suc:
  "calls st1 = calls st @ [CreateOrder (row_params row)] \<Longrightarrow>
   answer_to_row cl st (row # rows) (Suc j) = answer_to_row cl st1 rows j"
  by (simp add: answer_to_row_def)

lemma place_rows_all_confirmed:
  assumes "\<forall>j<length rows. answer_to_row cl st rows j = Inr (conf j)"
  shows "fst (place_rows cl rows st) = Inr () \<and>
         successful_orders (snd (place_rows cl rows st)) =
           successful_orders st @ map conf [0..<length rows] \<and>
         failed_orders (snd (place_rows cl rows st)) = failed_orders st \<and>
         calls (snd (place_rows cl rows st)) = calls st @ map (CreateOrder \<circ> row_params) rows"
  using assms
proof (induction rows arbitrary: st conf)
  case Nil
  then show ?case by simp
next
  case (Cons row rows)
  let ?st1 = "st\<lparr>calls := calls st @ [CreateOrder (row_params row)],
                  successful_orders := successful_orders st @ [conf 0],
                  telegram_sent := telegram_sent st @ [OrderPlaced (conf 0)]\<rparr>"
  from Cons.prems have "answer_to_row cl st (row # rows) 0 = Inr (conf 0)" by simp
  then have first: "place_order cl (Symbol row) (Side row) (Size row) (Price row) ''MARKET'' st =
      (Inr (), ?st1)"
    by (simp add: answer_to_row_0 row_params_def place_order_confirmed)
  have rest: "\<forall>j<length rows. answer_to_row cl ?st1 rows j = Inr ((conf \<circ> Suc) j)"
  proof (intro allI impI)
    fix j assume "j < length rows"
    then have "answer_to_row cl st (row # rows) (Suc j) = Inr (conf (Suc j))"
      using Cons.prems by simp
    then show "answer_to_row cl ?st1 rows j = Inr ((conf \<circ> Suc) j)"
      by (simp add: answer_to_row_Suc [of ?st1 st row])
  qed
  show ?case
    using Cons.IH [OF rest]
    by (simp add: first map_upt_Suc del: upt_Suc)
qed

lemma place_rows_one_rejected:
  assumes "i < length rows"
    and "answer_to_row cl st rows i = Inl (BinanceAPIException e)"
    and "\<forall>j<length rows. j \<noteq> i \<longrightarrow> answer_to_row cl st rows j = Inr (conf j)"
  shows "fst (place_rows cl rows st) = Inr () \<and>
         successful_orders (snd (place_rows cl rows st)) =
           successful_orders st @ map conf ([0..<i] @ [Suc i..<length rows]) \<and>
         failed_orders (snd (place_rows cl rows st)) =
           failed_orders st @
             [FailedOrder (Symbol (rows ! i)) (Side (rows ! i)) (Size (rows ! i))
                (Price (rows ! i)) e] \<and>
         calls (snd (place_rows cl rows st)) = calls st @ map (CreateOrder \<circ> row_params) rows"
  using assms
proof (induction rows arbitrary: st conf i)
  case Nil
  then show ?case by simp
next
  case (Cons row rows)
  show ?case
  proof (cases i)
    case 0
    let ?st1 = "st\<lparr>calls := calls st @ [CreateOrder (row_params row)],
                    failed_orders := failed_orders st @
                      [FailedOrder (Symbol row) (Side row) (Size row) (Price row) e],
                    telegram_sent := telegram_sent st @ [OrderFailed (Symbol row) (Side row) e]\<rparr>"
    from Cons.prems(2) 0
    have first: "place_order cl (Symbol row) (Side row) (Size row) (Price row) ''MARKET'' st =
        (Inr (), ?st1)"
      by (simp add: answer_to_row_0 row_params_def place_order_rejected)
    have rest: "\<forall>j<length rows. answer_to_row cl ?st1 rows j = Inr ((conf \<circ> Suc) j)"
    proof (intro allI impI)
      fix j assume "j < length rows"
      then have "answer_to_row cl st (row # rows) (Suc j) = Inr (conf (Suc j))"
        using Cons.prems(3) 0 by simp
      then show "answer_to_row cl ?st1 rows j = Inr ((conf \<circ> Suc) j)"
        by (simp add: answer_to_row_Suc [of ?st1 st row])
    qed
    show ?thesis
      using place_rows_all_confirmed [OF rest] 0
      by (simp add: first map_Suc_upt [symmetric] del: upt_Suc map_Suc_upt)
  next
    case (Suc i')
    let ?st1 = "st\<lparr>calls := calls st @ [CreateOrder (row_params row)],
                    successful_orders := successful_orders st @ [conf 0],
                    telegram_sent := telegram_sent st @ [OrderPlaced (conf 0)]\<rparr>"
    from Cons.prems(3) Suc have "answer_to_row cl st (row # rows) 0 = Inr (conf 0)" by simp
    then have first: "place_order cl (Symbol row) (Side row) (Size row) (Price row) ''MARKET'' st =
        (Inr (), ?st1)"
      by (simp add: answer_to_row_0 row_params_def place_order_confirmed)
    have i': "i' < length rows" using Cons.prems(1) Suc by simp
    have rej: "answer_to_row cl ?st1 rows i' = Inl (BinanceAPIException e)"
      using Cons.prems(2) Suc by (simp add: answer_to_row_Suc [of ?st1 st row])
    have rest: "\<forall>j<length rows. j \<noteq> i' \<longrightarrow> answer_to_row cl ?st1 rows j = Inr ((conf \<circ> Suc) j)"
    proof (intro allI impI)
      fix j assume "j < length rows" and "j \<noteq> i'"
      then have "answer_to_row cl st (row # rows) (Suc j) = Inr (conf (Suc j))"
        using Cons.prems(3) Suc by simp
      then show "answer_to_row cl ?st1 rows j = Inr ((conf \<circ> Suc) j)"
        by (simp add: answer_to_row_Suc [of ?st1 st row])
    qed
    have "map conf [Suc (Suc i')..<Suc (length rows)] =
          map conf (map Suc [Suc i'..<length rows])"
      by (simp only: map_Suc_upt)
    then have idx: "map conf [0..<Suc i'] @ map conf [Suc (Suc i')..<Suc (length rows)] =
               conf 0 # map (\<lambda>a. conf (Suc a)) [0..<i'] @
                 map (\<lambda>a. conf (Suc a)) [Suc i'..<length rows]"
      by (simp add: map_upt_Suc o_def del: upt_Suc map_Suc_upt)
    show ?thesis
      using Cons.IH [OF i' rej rest] Suc
      by (simp add: first idx del: upt_Suc)
  qed
qed

text \<open>
  What a batch with one rejected row does, from any state of the instance: every row is
  sent, in table order, the rows after the rejected one included; one failure, that of
  row \<open>i\<close>, and one success for each other row are appended to the lists of the instance,
  and those lists are returned.
\<close>

lemma iterate_orders_df_one_rejected:
  assumes "i < length rows"
    and "answer_to_row cl st rows i = Inl (BinanceAPIException e)"
    and "\<forall>j<length rows. j \<noteq> i \<longrightarrow> answer_to_row cl st rows j = Inr (conf j)"
  shows "fst (iterate_orders_df cl rows st) =
           Inr (successful_orders st @ map conf ([0..<i] @ [Suc i..<length rows]),
                failed_orders st @
                  [FailedOrder (Symbol (rows ! i)) (Side (rows ! i)) (Size (rows ! i))
                     (Price (rows ! i)) e]) \<and>
         calls (snd (iterate_orders_df cl rows st)) =
           calls st @ map (CreateOrder \<circ> row_params) rows"
proof -
  have ne: "rows \<noteq> []" using assms(1) by auto
  obtain r st1 where run: "place_rows cl rows st = (r, st1)"
    by (cases "place_rows cl rows st")
  from place_rows_one_rejected [OF assms] run
  have "r = Inr ()"
    and "successful_orders st1 =
           successful_orders st @ map conf ([0..<i] @ [Suc i..<length rows])"
    and "failed_orders st1 =
           failed_orders st @
             [FailedOrder (Symbol (rows ! i)) (Side (rows ! i)) (Size (rows ! i))
                (Price (rows ! i)) e]"
    and "calls st1 = calls st @ map (CreateOrder \<circ> row_params) rows"
    by simp_all
  then show ?thesis
    using ne run by (simp add: iterate_orders_df_def)
qed

text \<open>
  Claim C4 fails on the code. A table of three rows, the middle one rejected, is run on an
  instance that has run the same table before: all three rows are sent, but the result
  holds four successes and two failures, not one failure and a success for each other
  row. The outcomes of the earlier call are still in the lists of the instance.
\<close>

theorem iterate_orders_df_used_instance:
  "fst (iterate_orders_df exchange orders_df2
          (snd (iterate_orders_df exchange orders_df2 new_instance))) =
     Inr ([''spot BUY BTCUSDT'', ''spot SELL ETHUSDT'', ''spot BUY BTCUSDT'', ''spot SELL ETHUSDT''],
          [FailedOrder ''ADAUSDT'' ''buy'' (1 / 10000) (2 / 5) lot_size_error,
           FailedOrder ''ADAUSDT'' ''buy'' (1 / 10000) (2 / 5) lot_size_error])"
  by (simp add: iterate_orders_df_def orders_df2_def place_order_def gateway_def Let_def
      send_telegram_message_def exchange_def new_instance_def spot_params_def upper_words)

text \<open>
  Claim C3 fails on the code. A second batch of three rows, run on the instance that ran
  the two rows of the \<^verbatim>\<open>__main__\<close> example before, returns four successes: the two of
  the first batch come back with the two of its own.
\<close>

theorem iterate_orders_df_carries_over:
  "fst (iterate_orders_df exchange orders_df2
          (snd (iterate_orders_df exchange orders_df new_instance))) =
     Inr ([''spot BUY BTCUSDT'', ''spot SELL ETHUSDT'', ''spot BUY BTCUSDT'', ''spot SELL ETHUSDT''],
          [FailedOrder ''ADAUSDT'' ''buy'' (1 / 10000) (2 / 5) lot_size_error])"
  by (simp add: iterate_orders_df_def orders_df_def orders_df2_def place_order_def gateway_def
      send_telegram_message_def exchange_def new_instance_def spot_params_def upper_words)

section \<open>Closing positions: one position and the sweep\<close>

text \<open>
  What the loop body does with a rejected close order: when the text \<open>e\<close> of the
  \<^verbatim>\<open>BinanceAPIException\<close> contains \<^verbatim>\<open>notional must be no smaller than 5\<close> the position
  is appended to the unclosable list, with its symbol and its notional value, and to no
  other list; for every other text it is appended to the failed list, with its symbol and
  \<open>e\<close>, and to no other list.
\<close>

lemma close_position_rejected:
  assumes "positionAmt pos \<noteq> 0"
    and "futures_mark_price cl (calls st) (pos_symbol pos) = Inr m"
    and "close_quantity quantity quantity_type percentage (positionAmt pos) m = Inr qty"
    and "futures_create_order cl (calls st @ [FuturesMarkPrice (pos_symbol pos)])
           (close_params (pos_symbol pos) (if positionAmt pos > 0 then ''SELL'' else ''BUY'') qty) =
         Inl (BinanceAPIException e)"
  shows "fst (close_position cl quantity quantity_type percentage pos acc st) =
     Inr (if str_contains ''notional must be no smaller than 5'' e
          then acc\<lparr>unclosable_positions :=
                 unclosable_positions acc @
                   [\<lparr>u_symbol = pos_symbol pos, u_notional = \<bar>positionAmt pos * m\<bar>,
                     u_error = ''Notional value too small to close.''\<rparr>]\<rparr>
          else acc\<lparr>failed_closes :=
                 failed_closes acc @ [\<lparr>fc_symbol = pos_symbol pos, fc_error = e\<rparr>]\<rparr>)"
  using assms
  by (simp add: close_position_def gateway_def Let_def send_telegram_message_def)

text \<open>
  The scenario of the spec: BTCUSDT and ADAUSDT are closed, ETHUSDT with a notional value
  of 3 is unclosable, nothing has failed.
\<close>

lemma close_futures_positions_scenario:
  "fst (close_futures_positions exchange None None ''CONTRACTS'' None new_instance) =
     Inr (Some [''futures SELL BTCUSDT'', ''futures BUY ADAUSDT''], Some [],
          Some [\<lparr>u_symbol = ''ETHUSDT'', u_notional = 3,
                 u_error = ''Notional value too small to close.''\<rparr>])"
  by (simp add: close_futures_positions_def close_futures_positions_try_def close_position_def
      gateway_def Let_def send_telegram_message_def exchange_def new_instance_def
      close_quantity_def truthy_def truthy_str_def close_params_def notional_error_def)


text \<open>
  Claim C5 fails on the code. The mark price is fetched outside the inner \<^verbatim>\<open>try\<close>, so
  a \<^verbatim>\<open>BinanceAPIException\<close> of that fetch reaches the outer handler: BTCUSDT has been
  closed by then, the sweep stops at LUNAUSDT, ADAUSDT is never attempted, and the caller
  receives \<^verbatim>\<open>(None, None, None)\<close> with the notification of a failed position fetch.
\<close>

theorem close_futures_positions_mark_price_error_aborts:
  "close_futures_positions (exchange\<lparr>futures_account := \<lambda>h. Inr lost_account\<rparr>)
      None None ''CONTRACTS'' None new_instance =
     (Inr (None, None, None),
      \<lparr>successful_orders = [], failed_orders = [],
       telegram_sent =
         [ClosedPosition ''BTCUSDT'' ''futures SELL BTCUSDT'', FetchPositionsFailed symbol_error],
       calls =
         [FuturesAccount, FuturesAccount, FuturesMarkPrice ''BTCUSDT'',
          FuturesCreateOrder (close_params ''BTCUSDT'' ''SELL'' (1 / 2)),
          FuturesMarkPrice ''LUNAUSDT'']\<rparr>)"
  by (simp add: close_futures_positions_def close_futures_positions_try_def close_position_def
      gateway_def Let_def send_telegram_message_def exchange_def new_instance_def
      close_quantity_def truthy_def truthy_str_def close_params_def lost_account_def)

section \<open>Futures orders: zero filters and the failure record\<close>

text \<open>
  The conversion of lines 89 to 91 succeeds in two cases: the quantity is not in USD, or
  it is and the mark price was fetched and is not zero. It records and notifies nothing.
\<close>

lemma usd_to_contracts_succeeds:
  "usd_to_contracts cl symbol quantity quantity_type st = (Inr quantity1, st2) \<longleftrightarrow>
     (if upper quantity_type = ''USD''
      then (\<exists>m. futures_mark_price cl (calls st) symbol = Inr m \<and> m \<noteq> 0 \<and>
                quantity1 = float_of (quantity / float_of m) \<and>
                st2 = st\<lparr>calls := calls st @ [FuturesMarkPrice symbol]\<rparr>)
      else quantity1 = quantity \<and> st2 = st)"
  by (auto simp: usd_to_contracts_def gateway_def float_truediv_def float_of_eq_0_iff
      split: sum.splits)

lemma usd_to_contracts_frame:
  assumes "usd_to_contracts cl symbol quantity quantity_type st1 = (r, st2)"
  shows "successful_orders st2 = successful_orders st1 \<and> failed_orders st2 = failed_orders st1 \<and>
         telegram_sent st2 = telegram_sent st1 \<and>
         (calls st2 = calls st1 \<or> calls st2 = calls st1 @ [FuturesMarkPrice symbol])"
  using assms
  by (auto simp: usd_to_contracts_def gateway_def split: if_splits sum.splits)

lemma round_to_step_zero: "round_to_step v 0 = Inl ZeroDivisionError"
  by (simp add: round_to_step_def floordiv_def)

lemma round_to_step_positive:
  "0 < step \<Longrightarrow> \<exists>r. round_to_step v step = Inr r"
  by (simp add: round_to_step_def floordiv_def math_log10_def)

lemma round_price_zero: "truthy price \<Longrightarrow> round_price price 0 = Inl ZeroDivisionError"
  by (simp add: round_price_def round_to_step_zero)

lemma round_price_absent: "\<not> truthy price \<Longrightarrow> round_price price tick_size = Inr price"
  by (simp add: round_price_def)

text \<open>
  Claim C7, as the code has it. The code has no check of the filters. Take an order on an
  instrument that the exchange info lists, with the quantity in contracts, or in USD once
  the mark price has been fetched and is not zero. A step size of zero makes
  \<^verbatim>\<open>place_futures_order\<close> raise \<^verbatim>\<open>ZeroDivisionError\<close> from the floor division; so does a
  tick size of zero when the step size is positive and a non-zero price is given. In both
  cases the exception is not caught: no order is sent, nothing is recorded or notified,
  and the only calls made are the exchange info and, for a USD quantity, the mark price.
  With a positive step size and no price, or a price of zero, the tick size is not read:
  whatever it is, zero included, the rounding of the quantity succeeds and the order is
  sent with the rounded quantity and, in a limit order, the price as given.
\<close>

theorem place_futures_order_zero_filter:
  assumes "futures_exchange_info cl (calls st) = Inr infos"
    and "find_symbol infos (upper symbol) = Some info"
    and "usd_to_contracts cl symbol quantity quantity_type
           (st\<lparr>calls := calls st @ [FuturesExchangeInfo]\<rparr>) = (Inr quantity1, st2)"
  shows "(stepSize info = 0 \<longrightarrow>
            place_futures_order cl symbol side quantity price order_type quantity_type st =
              (Inl ZeroDivisionError, st2)) \<and>
         (0 < stepSize info \<and> tickSize info = 0 \<and> truthy price \<longrightarrow>
            place_futures_order cl symbol side quantity price order_type quantity_type st =
              (Inl ZeroDivisionError, st2)) \<and>
         (0 < stepSize info \<and> \<not> truthy price \<longrightarrow>
            (\<exists>quantity2.
               round_to_step quantity1 (float_of (stepSize info)) = Inr quantity2 \<and>
               calls (snd (place_futures_order cl symbol side quantity price order_type
                             quantity_type st)) =
                 calls st2 @
                   [FuturesCreateOrder (futures_params symbol side quantity2 price order_type)])) \<and>
         successful_orders st2 = successful_orders st \<and> failed_orders st2 = failed_orders st \<and>
         telegram_sent st2 = telegram_sent st \<and>
         calls st2 =
           calls st @
             (if upper quantity_type = ''USD'' then [FuturesExchangeInfo, FuturesMarkPrice symbol]
              else [FuturesExchangeInfo])"
proof -
  have step0: "place_futures_order cl symbol side quantity price order_type quantity_type st =
        (Inl ZeroDivisionError, st2)"
    if "stepSize info = 0"
    using assms that
    by (simp add: place_futures_order_def place_futures_order_try_def gateway_def
        round_to_step_zero float_of_def)
  have tick0: "place_futures_order cl symbol side quantity price order_type quantity_type st =
        (Inl ZeroDivisionError, st2)"
    if pos: "0 < stepSize info" and tick: "tickSize info = 0" and given: "truthy price"
  proof -
    obtain r where "round_to_step quantity1 (float_of (stepSize info)) = Inr r"
      using round_to_step_positive [OF float_of_pos [OF pos]] by blast
    then show ?thesis
      using assms tick given
      by (simp add: place_futures_order_def place_futures_order_try_def gateway_def
          round_price_zero float_of_def)
  qed
  have sent: "\<exists>quantity2.
       round_to_step quantity1 (float_of (stepSize info)) = Inr quantity2 \<and>
       calls (snd (place_futures_order cl symbol side quantity price order_type
                     quantity_type st)) =
         calls st2 @ [FuturesCreateOrder (futures_params symbol side quantity2 price order_type)]"
    if pos: "0 < stepSize info" and absent: "\<not> truthy price"
  proof -
    obtain r where r: "round_to_step quantity1 (float_of (stepSize info)) = Inr r"
      using round_to_step_positive [OF float_of_pos [OF pos]] by blast
    have "calls (snd (place_futures_order cl symbol side quantity price order_type
                     quantity_type st)) =
         calls st2 @ [FuturesCreateOrder (futures_params symbol side r price order_type)]"
      using assms r
      by (simp add: place_futures_order_def place_futures_order_try_def gateway_def
          round_price_absent [OF absent] send_telegram_message_def Let_def
          split: sum.splits exn.splits)
    with r show ?thesis by blast
  qed
  have made: "calls st2 =
      calls st @
        (if upper quantity_type = ''USD'' then [FuturesExchangeInfo, FuturesMarkPrice symbol]
         else [FuturesExchangeInfo])"
    using assms(3) unfolding usd_to_contracts_succeeds by (auto split: if_splits)
  show ?thesis
    using step0 tick0 sent usd_to_contracts_frame [OF assms(3)] made by auto
qed

text \<open>
  NEWUSDT has a zero step size; OLDUSDT has a zero tick size and gets a limit price, then
  a market order without a price, which is sent; last, 96 USD of NEWUSDT at a mark price
  of 64.
\<close>

theorem place_futures_order_zero_filter_witness:
  "place_futures_order exchange ''NEWUSDT'' ''BUY'' 1 None ''MARKET'' ''CONTRACTS'' new_instance =
     (Inl ZeroDivisionError, new_instance\<lparr>calls := [FuturesAccount, FuturesExchangeInfo]\<rparr>) \<and>
   place_futures_order exchange ''OLDUSDT'' ''BUY'' 1 (Some 7) ''LIMIT'' ''CONTRACTS'' new_instance =
     (Inl ZeroDivisionError, new_instance\<lparr>calls := [FuturesAccount, FuturesExchangeInfo]\<rparr>) \<and>
   calls (snd (place_futures_order exchange ''OLDUSDT'' ''BUY'' (1 / 2) None ''MARKET''
                 ''CONTRACTS'' new_instance)) =
     [FuturesAccount, FuturesExchangeInfo,
      FuturesCreateOrder
        (futures_params ''OLDUSDT'' ''BUY'' (float_of (499 / 1000)) None ''MARKET'')] \<and>
   place_futures_order (exchange\<lparr>futures_mark_price := \<lambda>h s. Inr 64\<rparr>) ''NEWUSDT'' ''BUY'' 96 None
       ''MARKET'' ''usd'' new_instance =
     (Inl ZeroDivisionError,
      new_instance\<lparr>calls :=
        [FuturesAccount, FuturesExchangeInfo, FuturesMarkPrice ''NEWUSDT'']\<rparr>)"
proof -
  let ?st2 = "new_instance\<lparr>calls := [FuturesAccount, FuturesExchangeInfo]\<rparr>"
  let ?st3 = "new_instance\<lparr>calls :=
        [FuturesAccount, FuturesExchangeInfo, FuturesMarkPrice ''NEWUSDT'']\<rparr>"
  let ?ex = "exchange\<lparr>futures_mark_price := \<lambda>h s. Inr 64\<rparr>"
  let ?infos = "[\<lparr>si_symbol = ''BTCUSDT'', stepSize = 1 / 1000, tickSize = 1 / 10\<rparr>,
           \<lparr>si_symbol = ''XRPUSDT'', stepSize = 1 / 1000, tickSize = 1 / 10\<rparr>,
           \<lparr>si_symbol = ''NEWUSDT'', stepSize = 0, tickSize = 0\<rparr>,
           \<lparr>si_symbol = ''OLDUSDT'', stepSize = 1 / 1000, tickSize = 0\<rparr>]"
  have i: "futures_exchange_info exchange (calls new_instance) = Inr ?infos"
    by (simp add: exchange_def)
  have f1: "find_symbol ?infos (upper ''NEWUSDT'') =
      Some \<lparr>si_symbol = ''NEWUSDT'', stepSize = 0, tickSize = 0\<rparr>"
    by (simp add: upper_words)
  have f2: "find_symbol ?infos (upper ''OLDUSDT'') =
      Some \<lparr>si_symbol = ''OLDUSDT'', stepSize = 1 / 1000, tickSize = 0\<rparr>"
    by (simp add: upper_words)
  have u1: "usd_to_contracts exchange ''NEWUSDT'' 1 ''CONTRACTS''
      (new_instance\<lparr>calls := calls new_instance @ [FuturesExchangeInfo]\<rparr>) = (Inr 1, ?st2)"
    by (simp add: usd_to_contracts_def upper_words new_instance_def)
  have u2: "usd_to_contracts exchange ''OLDUSDT'' 1 ''CONTRACTS''
      (new_instance\<lparr>calls := calls new_instance @ [FuturesExchangeInfo]\<rparr>) = (Inr 1, ?st2)"
    by (simp add: usd_to_contracts_def upper_words new_instance_def)
  have u3: "usd_to_contracts exchange ''OLDUSDT'' (1 / 2) ''CONTRACTS''
      (new_instance\<lparr>calls := calls new_instance @ [FuturesExchangeInfo]\<rparr>) = (Inr (1 / 2), ?st2)"
    by (simp add: usd_to_contracts_def upper_words new_instance_def)
  have a: "place_futures_order exchange ''NEWUSDT'' ''BUY'' 1 None ''MARKET'' ''CONTRACTS''
      new_instance = (Inl ZeroDivisionError, ?st2)"
    using place_futures_order_zero_filter [OF i f1 u1, of "''BUY''" None "''MARKET''"]
    by simp
  have b: "place_futures_order exchange ''OLDUSDT'' ''BUY'' 1 (Some 7) ''LIMIT'' ''CONTRACTS''
      new_instance = (Inl ZeroDivisionError, ?st2)"
    using place_futures_order_zero_filter [OF i f2 u2, of "''BUY''" "Some 7" "''LIMIT''"]
    by (simp add: truthy_def)
  have c: "calls (snd (place_futures_order exchange ''OLDUSDT'' ''BUY'' (1 / 2) None ''MARKET''
                 ''CONTRACTS'' new_instance)) =
     [FuturesAccount, FuturesExchangeInfo,
      FuturesCreateOrder
        (futures_params ''OLDUSDT'' ''BUY'' (float_of (499 / 1000)) None ''MARKET'')]"
    using place_futures_order_zero_filter [OF i f2 u3, of "''BUY''" None "''MARKET''"]
    by (auto simp: truthy_def round_to_step_thousandth)
  have i': "futures_exchange_info ?ex (calls new_instance) = Inr ?infos"
    by (simp add: exchange_def)
  have "float_of 64 = 64"
    by (rule float_of_exact [where e = 6 and n = "2 ^ 52"])
       (simp_all add: power_int_minus field_simps)
  then have u4: "usd_to_contracts ?ex ''NEWUSDT'' 96 ''usd''
      (new_instance\<lparr>calls := calls new_instance @ [FuturesExchangeInfo]\<rparr>) =
      (Inr (3 / 2), ?st3)"
    by (simp add: usd_to_contracts_def gateway_def float_truediv_def upper_words
        new_instance_def float_of_small_numbers)
  have d: "place_futures_order ?ex ''NEWUSDT'' ''BUY'' 96 None ''MARKET'' ''usd'' new_instance =
      (Inl ZeroDivisionError, ?st3)"
    using place_futures_order_zero_filter [OF i' f1 u4, of "''BUY''" None "''MARKET''"]
    by simp
  show ?thesis using a b c d by simp
qed

text \<open>
  Claim C7 as stated fails: the error of an order on the zero-step instrument is the
  division by zero itself.
\<close>

theorem place_futures_order_zero_step_counterexample:
  "fst (place_futures_order exchange ''NEWUSDT'' ''BUY'' 1 None ''MARKET'' ''CONTRACTS''
          new_instance) = Inl ZeroDivisionError"
  by (simp add: place_futures_order_def place_futures_order_try_def gateway_def exchange_def
      new_instance_def usd_to_contracts_def upper_words round_to_step_zero float_of_def)

text \<open>
  A rejection before the order is built, here of the exchange info call, is recorded with
  the quantity and price of the caller.
\<close>

lemma place_futures_order_info_rejected:
  assumes "futures_exchange_info cl (calls st) = Inl (BinanceAPIException e)"
  shows "place_futures_order cl symbol side quantity price order_type quantity_type st =
     (Inr None,
      st\<lparr>calls := calls st @ [FuturesExchangeInfo],
         failed_orders := failed_orders st @ [FailedFuturesOrder symbol side quantity price e],
         telegram_sent := telegram_sent st @ [FuturesOrderFailed symbol side e]\<rparr>)"
  using assms
  by (simp add: place_futures_order_def place_futures_order_try_def gateway_def
      send_telegram_message_def)

text \<open>
  Claim C9 fails on the code. An order for 2.5 XRPUSDT, on a step size of 1, is rejected by
  the exchange for margin: the failure record holds the quantity 2, the value the rounding
  left in the variable, not the 2.5 of the request.
\<close>

theorem place_futures_order_records_rounded:
  "place_futures_order coarse_exchange ''XRPUSDT'' ''buy'' (5 / 2) None ''MARKET'' ''CONTRACTS''
       new_instance =
     (Inr None,
      \<lparr>successful_orders = [],
       failed_orders = [FailedFuturesOrder ''XRPUSDT'' ''buy'' 2 None margin_error],
       telegram_sent = [FuturesOrderFailed ''XRPUSDT'' ''buy'' margin_error],
       calls = [FuturesAccount, FuturesExchangeInfo,
                FuturesCreateOrder (futures_params ''XRPUSDT'' ''buy'' 2 None ''MARKET'')]\<rparr>) \<and>
   (2 :: real) \<noteq> 5 / 2"
  by (simp add: round_to_step_one place_futures_order_def place_futures_order_try_def
      gateway_def coarse_exchange_def exchange_def new_instance_def usd_to_contracts_def
      upper_words round_price_def truthy_def futures_params_def send_telegram_message_def)

end
